theory Spec2Isabelle
  imports Complex_Main "HOL-Library.Word" "HOL-Library.Char_ord" "HOL-Library.List_Lexorder"
begin

section \<open>Values read from theme files and OSM tags\<close>

text \<open>
  \<open>json.load\<close> yields Python values built from \<open>None\<close>, booleans, numbers, strings, lists and
  dicts. A dict is an association list in insertion order; \<open>map_of\<close> reads a key.
\<close>

datatype json =
    JNull
  | JBool bool
  | JNum rat
  | JStr string
  | JList "json list"
  | JObj "(string \<times> json) list"

type_synonym pydict = "(string \<times> json) list"

text \<open>\<open>d.get(k, default)\<close>\<close>

definition dict_get :: "pydict \<Rightarrow> string \<Rightarrow> json \<Rightarrow> json" where
  "dict_get d k dflt = (case map_of d k of Some v \<Rightarrow> v | None \<Rightarrow> dflt)"

text \<open>\<open>k in d\<close>\<close>

definition dict_has :: "pydict \<Rightarrow> string \<Rightarrow> bool" where
  "dict_has d k = (k \<in> set (map fst d))"

datatype py_error =
    JSONDecodeError
  | AttributeError
  | KeyError
  | ZeroDivisionError
  | ValueError
  | UnpicklingError
  | TypeError
  | IndexError

section \<open>load_theme (lines 78-107)\<close>

text \<open>
  The theme directory is a partial map from paths to what \<open>json.load\<close> does on the file:
  no entry when \<open>os.path.exists\<close> is false, \<open>NotJson\<close> when \<open>json.load\<close> raises,
  \<open>Json v\<close> when it returns \<open>v\<close>.
\<close>

datatype theme_file = NotJson | Json json

definition THEMES_DIR :: string where
  "THEMES_DIR = ''themes''"

definition theme_path :: "string \<Rightarrow> string" where
  "theme_path theme_name = THEMES_DIR @ ''/'' @ theme_name @ ''.json''"

definition default_theme :: pydict where
  "default_theme =
    [(''name'', JStr ''Feature-Based Shading''),
     (''bg'', JStr ''#FFFFFF''),
     (''text'', JStr ''#000000''),
     (''gradient_color'', JStr ''#FFFFFF''),
     (''water'', JStr ''#C0C0C0''),
     (''parks'', JStr ''#F0F0F0''),
     (''road_motorway'', JStr ''#0A0A0A''),
     (''road_primary'', JStr ''#1A1A1A''),
     (''road_secondary'', JStr ''#2A2A2A''),
     (''road_tertiary'', JStr ''#3A3A3A''),
     (''road_residential'', JStr ''#4A4A4A''),
     (''road_default'', JStr ''#3A3A3A'')]"

text \<open>
  A file that parses to something other than a dict fails at \<open>theme.get('name', ...)\<close>
  (line 104) with AttributeError; a dict is returned as it was read.
\<close>

definition load_theme :: "(string \<rightharpoonup> theme_file) \<Rightarrow> string \<Rightarrow> py_error + json" where
  "load_theme fs theme_name =
    (case fs (theme_path theme_name) of
       None \<Rightarrow> Inr (JObj default_theme)
     | Some NotJson \<Rightarrow> Inl JSONDecodeError
     | Some (Json theme) \<Rightarrow>
         (case theme of
            JObj d \<Rightarrow> Inr theme
          | _ \<Rightarrow> Inl AttributeError))"

text \<open>The four keys the data model requires of a theme.\<close>

definition required_keys :: "string list" where
  "required_keys = [''bg'', ''text'', ''gradient_color'', ''road_default'']"

fun has_required_keys :: "json \<Rightarrow> bool" where
  "has_required_keys (JObj d) = list_all (dict_has d) required_keys"
| "has_required_keys _ = False"

definition empty_theme_dir :: "string \<rightharpoonup> theme_file" where
  "empty_theme_dir = [''themes/bare.json'' \<mapsto> Json (JObj [(''name'', JStr ''Bare'')])]"

section \<open>parse_color_config (lines 146-157)\<close>

fun parse_color_config :: "json \<Rightarrow> bool \<times> json" where
  "parse_color_config (JList config) =
     (True, JObj [(''type'', JStr ''gradient''), (''colors'', JList config),
                  (''direction'', JStr ''vertical'')])"
| "parse_color_config (JObj config) =
     (if map_of config ''type'' = Some (JStr ''gradient'') then (True, JObj config)
      else (False, JObj config))"
| "parse_color_config config = (False, config)"

fun is_list :: "json \<Rightarrow> bool" where
  "is_list (JList _) = True"
| "is_list _ = False"

fun is_dict :: "json \<Rightarrow> bool" where
  "is_dict (JObj _) = True"
| "is_dict _ = False"

section \<open>get_enabled_features (lines 405-427)\<close>

definition feature_keys :: "(string \<times> string) list" where
  "feature_keys =
    [(''water'', ''water''),
     (''parks'', ''parks''),
     (''stadiums'', ''stadiums''),
     (''railway'', ''railway''),
     (''forest'', ''forest''),
     (''beach'', ''beach''),
     (''coastline'', ''coastline''),
     (''education'', ''education''),
     (''worship'', ''worship''),
     (''airport'', ''airport'')]"

definition get_enabled_features :: "pydict \<Rightarrow> (string \<times> bool) list" where
  "get_enabled_features theme =
     map (\<lambda>(feature_name, theme_key). (feature_name, dict_has theme theme_key)) feature_keys"

definition feature_names :: "string list" where
  "feature_names = [''water'', ''parks'', ''stadiums'', ''railway'', ''forest'', ''beach'',
                    ''coastline'', ''education'', ''worship'', ''airport'']"

section \<open>Road classification (lines 295-312 and 356-372)\<close>

text \<open>
  \<open>data.get('highway', 'unclassified')\<close>, then a list is replaced by its first element, or by
  \<open>'unclassified'\<close> when it is empty.
\<close>

definition edge_highway :: "pydict \<Rightarrow> json" where
  "edge_highway data =
     (let highway = dict_get data ''highway'' (JStr ''unclassified'')
      in case highway of
           JList [] \<Rightarrow> JStr ''unclassified''
         | JList (h # _) \<Rightarrow> h
         | _ \<Rightarrow> highway)"

definition road_key :: "json \<Rightarrow> string" where
  "road_key highway =
     (if highway \<in> set [JStr ''motorway'', JStr ''motorway_link''] then ''road_motorway''
      else if highway \<in> set [JStr ''trunk'', JStr ''trunk_link'', JStr ''primary'',
                             JStr ''primary_link''] then ''road_primary''
      else if highway \<in> set [JStr ''secondary'', JStr ''secondary_link''] then ''road_secondary''
      else if highway \<in> set [JStr ''tertiary'', JStr ''tertiary_link''] then ''road_tertiary''
      else if highway \<in> set [JStr ''residential'', JStr ''living_street'',
                             JStr ''unclassified''] then ''road_residential''
      else ''road_default'')"

definition road_width :: "json \<Rightarrow> rat" where
  "road_width highway =
     (if highway \<in> set [JStr ''motorway'', JStr ''motorway_link''] then 12 / 10
      else if highway \<in> set [JStr ''trunk'', JStr ''trunk_link'', JStr ''primary'',
                             JStr ''primary_link''] then 1
      else if highway \<in> set [JStr ''secondary'', JStr ''secondary_link''] then 8 / 10
      else if highway \<in> set [JStr ''tertiary'', JStr ''tertiary_link''] then 6 / 10
      else 4 / 10)"

text \<open>\<open>get_edge_widths_by_type\<close>: one width per edge, in edge order.\<close>

definition get_edge_widths_by_type :: "pydict list \<Rightarrow> rat list" where
  "get_edge_widths_by_type edge_data = map (\<lambda>data. road_width (edge_highway data)) edge_data"

definition road_keys :: "string list" where
  "road_keys = [''road_motorway'', ''road_primary'', ''road_secondary'', ''road_tertiary'',
                ''road_residential'', ''road_default'']"

section \<open>Cache store (lines 454-469) and its use by create_poster (lines 483-501)\<close>

text \<open>
  The cache directory maps a path to the file there: no entry when \<open>os.path.exists\<close> is false,
  \<open>Unreadable\<close> when \<open>open\<close> or \<open>pickle.load\<close> raises, \<open>Pickled v\<close> when \<open>pickle.load\<close>
  returns \<open>v\<close>. An unpickled value is \<open>None\<close> (Python's \<open>None\<close>) or \<open>Some\<close> object.
\<close>

datatype 'v cache_file = Unreadable | Pickled "'v option"

definition CACHE_DIR :: string where
  "CACHE_DIR = ''cache''"

definition cache_path :: "string \<Rightarrow> string" where
  "cache_path cache_key = CACHE_DIR @ ''/'' @ cache_key @ ''.pkl''"

definition pickle_load :: "'v cache_file \<Rightarrow> py_error + 'v option" where
  "pickle_load f = (case f of Unreadable \<Rightarrow> Inl UnpicklingError | Pickled data \<Rightarrow> Inr data)"

text \<open>The \<open>try\<close> of lines 461-468 turns every exception of the read into \<open>None\<close>.\<close>

definition load_from_cache :: "(string \<rightharpoonup> 'v cache_file) \<Rightarrow> string \<Rightarrow> py_error + 'v option" where
  "load_from_cache cache cache_key =
     (case cache (cache_path cache_key) of
        Some f \<Rightarrow>
          (case pickle_load f of
             Inr data \<Rightarrow> Inr data
           | Inl e \<Rightarrow> Inr None)
      | None \<Rightarrow> Inr None)"

text \<open>
  Lines 486-501 of \<open>create_poster\<close>: the cache is read only with \<open>use_cache\<close>; a value other
  than \<open>None\<close> is unpacked into the eleven collections (\<open>unpack\<close>, which raises on a value of
  another shape), and \<open>None\<close> leads to the download, whose outcome is \<open>download\<close>.
  \<open>save_to_cache\<close>, which follows a download, changes neither of the two and is left out.
\<close>

datatype 'd acquired = Cached 'd | Downloaded 'd

definition acquire_data ::
  "bool \<Rightarrow> (string \<rightharpoonup> 'v cache_file) \<Rightarrow> string \<Rightarrow> ('v \<Rightarrow> py_error + 'd) \<Rightarrow> py_error + 'd
     \<Rightarrow> py_error + 'd acquired" where
  "acquire_data use_cache cache cache_key unpack download =
     (case (if use_cache then load_from_cache cache cache_key else Inr None) of
        Inl e \<Rightarrow> Inl e
      | Inr (Some cached_data) \<Rightarrow> map_sum id Cached (unpack cached_data)
      | Inr None \<Rightarrow> map_sum id Downloaded download)"

section \<open>Area features: filter_geom (lines 636-650), geoms_to_path, plot_feature (lines 174-254)\<close>





















section \<open>Colours\<close>

type_synonym rgba = "rat \<times> rat \<times> rat \<times> rat"

definition hex_digit :: "char \<Rightarrow> nat option" where
  "hex_digit c =
     (let n = (of_char c :: nat)
      in if 48 \<le> n \<and> n \<le> 57 then Some (n - 48)
         else if 97 \<le> n \<and> n \<le> 102 then Some (n - 87)
         else if 65 \<le> n \<and> n \<le> 70 then Some (n - 55)
         else None)"

definition hex_byte :: "char \<Rightarrow> char \<Rightarrow> rat option" where
  "hex_byte a b =
     (case (hex_digit a, hex_digit b) of
        (Some h, Some l) \<Rightarrow> Some (of_nat (16 * h + l) / 255)
      | _ \<Rightarrow> None)"

text \<open>\<open>#rrggbb\<close>, the notation the themes use: each channel is its byte over 255, alpha is 1.\<close>

fun hex_rgba :: "string \<Rightarrow> rgba option" where
  "hex_rgba [h, r1, r2, g1, g2, b1, b2] =
     (if h = CHR ''#'' then
        (case (hex_byte r1 r2, hex_byte g1 g2, hex_byte b1 b2) of
           (Some r, Some g, Some b) \<Rightarrow> Some (r, g, b, 1)
         | _ \<Rightarrow> None)
      else None)"
| "hex_rgba _ = None"

text \<open>
  \<open>matplotlib.colors.to_rgba\<close> on a theme value. Only a string can name a colour here (a list
  is always taken as a gradient before it gets this far). \<open>named\<close> stands for the notations of
  matplotlib other than \<open>#rrggbb\<close>; \<open>None\<close> is the ValueError of an invalid colour.
\<close>

definition to_rgba :: "(string \<Rightarrow> rgba option) \<Rightarrow> json \<Rightarrow> rgba option" where
  "to_rgba named c =
     (case c of
        JStr s \<Rightarrow> (case hex_rgba s of Some v \<Rightarrow> Some v | None \<Rightarrow> named s)
      | _ \<Rightarrow> None)"

definition to_rgb :: "(string \<Rightarrow> rgba option) \<Rightarrow> json \<Rightarrow> (rat \<times> rat \<times> rat) option" where
  "to_rgb named c = map_option (\<lambda>(r, g, b, a). (r, g, b)) (to_rgba named c)"

text \<open>\<open>numpy.linspace(start, stop, num)\<close>, in exact arithmetic.\<close>

definition linspace :: "rat \<Rightarrow> rat \<Rightarrow> nat \<Rightarrow> rat list" where
  "linspace start stop num =
     map (\<lambda>i. start + of_nat i * ((stop - start) / of_nat (num - 1))) [0..<num]"

text \<open>
  The table index a colormap of \<open>N\<close> entries uses for a value: \<open>x * N\<close> truncated, with \<open>x = 1\<close>
  sent to the last entry, values below 0 to the first and values above 1 to the last.
\<close>

definition cmap_index :: "nat \<Rightarrow> rat \<Rightarrow> nat" where
  "cmap_index N x =
     (if x * of_nat N < 0 then 0
      else if x * of_nat N \<ge> of_nat N then N - 1
      else nat \<lfloor>x * of_nat N\<rfloor>)"

section \<open>create_gradient_fade (lines 112-144) and its two calls (lines 695-696)\<close>

text \<open>
  The image handed to \<open>imshow\<close>: its extent, its rows of pixels from the bottom row up
  (\<open>origin='lower'\<close>), and its z-order. The data are the 256 by 2 array \<open>gradient\<close>, already
  within 0 and 1, mapped through the listed colormap \<open>my_colors\<close>.
\<close>

record fade_image =
  img_extent :: "rat \<times> rat \<times> rat \<times> rat"
  img_pixels :: "rgba list list"
  img_zorder :: rat

definition create_gradient_fade ::
  "(string \<Rightarrow> rgba option) \<Rightarrow> rat \<times> rat \<Rightarrow> rat \<times> rat \<Rightarrow> json \<Rightarrow> string \<Rightarrow> rat
     \<Rightarrow> py_error + fade_image" where
  "create_gradient_fade named xlim ylim color location zorder =
     (let vals = linspace 0 1 256;
          gradient = map (\<lambda>v. [v, v]) vals
      in case to_rgb named color of
           None \<Rightarrow> Inl ValueError
         | Some (r, g, b) \<Rightarrow>
             let alphas = (if location = ''bottom'' then linspace 1 0 256 else linspace 0 1 256);
                 extent_y_start = (if location = ''bottom'' then 0 else 75 / 100);
                 extent_y_end = (if location = ''bottom'' then 25 / 100 else 1);
                 my_colors = map (\<lambda>a. (r, g, b, a)) alphas;
                 y_range = snd ylim - fst ylim;
                 y_bottom = fst ylim + y_range * extent_y_start;
                 y_top = fst ylim + y_range * extent_y_end
             in Inr \<lparr>img_extent = (fst xlim, snd xlim, y_bottom, y_top),
                     img_pixels = map (map (\<lambda>v. my_colors ! cmap_index 256 v)) gradient,
                     img_zorder = zorder\<rparr>)"

definition poster_fades ::
  "(string \<Rightarrow> rgba option) \<Rightarrow> pydict \<Rightarrow> rat \<times> rat \<Rightarrow> rat \<times> rat \<Rightarrow> py_error + fade_image list" where
  "poster_fades named THEME xlim ylim =
     (case map_of THEME ''gradient_color'' of
        None \<Rightarrow> Inl KeyError
      | Some color \<Rightarrow>
          (case create_gradient_fade named xlim ylim color ''bottom'' 10 of
             Inl e \<Rightarrow> Inl e
           | Inr lower \<Rightarrow>
               (case create_gradient_fade named xlim ylim color ''top'' 10 of
                  Inl e \<Rightarrow> Inl e
                | Inr upper \<Rightarrow> Inr [lower, upper])))"

section \<open>Colormaps: get_cached_cmap (lines 262-267)\<close>

text \<open>
  A \<open>LinearSegmentedColormap\<close> made by \<open>from_list\<close> holds its stops, converted to RGBA and
  spaced equally over 0 to 1; its table has 256 entries. \<open>from_list\<close> fails on an empty
  sequence (\<open>colors[0]\<close>) and on a stop that is not a colour.
\<close>

datatype colormap = Colormap "rgba list"

definition from_list :: "(string \<Rightarrow> rgba option) \<Rightarrow> json list \<Rightarrow> py_error + colormap" where
  "from_list named colors =
     (if colors = [] then Inl IndexError
      else case those (map (to_rgba named) colors) of
             None \<Rightarrow> Inl ValueError
           | Some stops \<Rightarrow> Inr (Colormap stops))"

text \<open>A tuple is a dict key only if each element can be hashed: lists and dicts cannot.\<close>

fun hashable :: "json \<Rightarrow> bool" where
  "hashable (JList _) = False"
| "hashable (JObj _) = False"
| "hashable _ = True"

type_synonym cmap_cache = "json list \<rightharpoonup> colormap"

text \<open>
  \<open>CMAP_CACHE\<close> is passed in and returned. A failed construction stores nothing. A \<open>colors\<close>
  value that is not a list never yields a colour: each such value raises at the lookup, in
  \<open>from_list\<close>, or at the first call of the colormap, all inside the caller's \<open>try\<close>.
\<close>

definition get_cached_cmap ::
  "(string \<Rightarrow> rgba option) \<Rightarrow> cmap_cache \<Rightarrow> json \<Rightarrow> (py_error + colormap) \<times> cmap_cache" where
  "get_cached_cmap named CMAP_CACHE colors =
     (case colors of
        JList cs \<Rightarrow>
          if \<not> list_all hashable cs then (Inl TypeError, CMAP_CACHE)
          else
            (case CMAP_CACHE cs of
               Some cmap \<Rightarrow> (Inr cmap, CMAP_CACHE)
             | None \<Rightarrow>
                 (case from_list named cs of
                    Inl e \<Rightarrow> (Inl e, CMAP_CACHE)
                  | Inr cmap \<Rightarrow> (Inr cmap, CMAP_CACHE(cs \<mapsto> cmap))))
      | _ \<Rightarrow> (Inl TypeError, CMAP_CACHE))"

definition clip01 :: "rat \<Rightarrow> rat" where
  "clip01 v = max 0 (min 1 v)"

text \<open>
  Entry \<open>j\<close> of the 256-entry table of one channel whose stop values are \<open>y\<close> (at least two):
  the first and last entries are the first and last stops; entry \<open>j\<close> between them lies on
  the segment that ends at the first stop position, scaled by 255, not below \<open>j\<close>. The table
  is clipped to 0..1.
\<close>

definition lut_channel :: "rat list \<Rightarrow> nat \<Rightarrow> rat" where
  "lut_channel y j =
     clip01
       (if j = 0 then y ! 0
        else if j = 255 then last y
        else
          let n1 = length y - 1;
              ind = nat \<lceil>of_nat j * of_nat n1 / (255 :: rat)\<rceil>;
              x_lo = 255 * of_nat (ind - 1) / of_nat n1;
              x_hi = 255 * of_nat ind / of_nat n1;
              distance = (of_nat j - x_lo) / (x_hi - x_lo)
          in distance * (y ! ind - y ! (ind - 1)) + y ! (ind - 1))"

fun chan_r :: "rgba \<Rightarrow> rat" where "chan_r (r, g, b, a) = r"
fun chan_g :: "rgba \<Rightarrow> rat" where "chan_g (r, g, b, a) = g"
fun chan_b :: "rgba \<Rightarrow> rat" where "chan_b (r, g, b, a) = b"
fun chan_a :: "rgba \<Rightarrow> rat" where "chan_a (r, g, b, a) = a"

text \<open>
  Calling the colormap on a position: the table is built at the first call, which fails with
  fewer than two stops; the entry is the one \<open>cmap_index\<close> gives.
\<close>

definition cmap_call :: "colormap \<Rightarrow> rat \<Rightarrow> py_error + rgba" where
  "cmap_call cmap pos =
     (case cmap of
        Colormap stops \<Rightarrow>
          if length stops < 2 then Inl ValueError
          else
            let j = cmap_index 256 pos
            in Inr (lut_channel (map chan_r stops) j, lut_channel (map chan_g stops) j,
                    lut_channel (map chan_b stops) j, lut_channel (map chan_a stops) j))"

section \<open>get_edge_colors_by_type (lines 269-347)\<close>

text \<open>
  The street graph: nodes with their coordinates (a coordinate can be missing, which is the
  KeyError of \<open>d['x']\<close>), and edges with their tag dicts.
\<close>

record node_data =
  node_x :: "rat option"
  node_y :: "rat option"

record graph =
  nodes :: "(nat \<times> node_data) list"
  edges :: "(nat \<times> nat \<times> pydict) list"




text \<open>\<open>a or b\<close> on numbers: \<open>b\<close> when \<open>a\<close> is zero.\<close>

definition or_else :: "rat \<Rightarrow> rat \<Rightarrow> rat" where
  "or_else a b = (if a = 0 then b else a)"

definition py_div :: "rat \<Rightarrow> rat \<Rightarrow> py_error + rat" where
  "py_div a b = (if b = 0 then Inl ZeroDivisionError else Inr (a / b))"

text \<open>The body of the \<open>try\<close> of lines 321-339, with the exception it may raise.\<close>

definition sample_gradient ::
  "(string \<Rightarrow> rgba option) \<Rightarrow> graph \<Rightarrow> rat \<Rightarrow> rat \<Rightarrow> rat \<Rightarrow> rat \<Rightarrow> cmap_cache \<Rightarrow> pydict
     \<Rightarrow> nat \<Rightarrow> nat \<Rightarrow> (py_error + rgba) \<times> cmap_cache" where
  "sample_gradient named G minx miny width height CMAP_CACHE params u v =
     (case (map_of (nodes G) u, map_of (nodes G) v) of
        (Some u_node, Some v_node) \<Rightarrow>
          (case (node_x u_node, node_x v_node, node_y u_node, node_y v_node) of
             (Some ux, Some vx, Some uy, Some vy) \<Rightarrow>
               let mid_x = (ux + vx) / 2;
                   mid_y = (uy + vy) / 2;
                   direction = dict_get params ''direction'' (JStr ''vertical'')
               in (case (if direction = JStr ''vertical'' then py_div (mid_y - miny) height
                         else py_div (mid_x - minx) width) of
                     Inl e \<Rightarrow> (Inl e, CMAP_CACHE)
                   | Inr pos0 \<Rightarrow>
                       let pos = max 0 (min 1 pos0);
                           colors = dict_get params ''colors''
                                      (JList [JStr ''#000000'', JStr ''#FFFFFF''])
                       in (case get_cached_cmap named CMAP_CACHE colors of
                             (Inl e, cache') \<Rightarrow> (Inl e, cache')
                           | (Inr cmap, cache') \<Rightarrow> (cmap_call cmap pos, cache')))
           | _ \<Rightarrow> (Inl KeyError, CMAP_CACHE))
      | _ \<Rightarrow> (Inl KeyError, CMAP_CACHE))"

text \<open>\<open>to_rgba\<close> on an RGBA tuple: the tuple, if every channel is within 0 and 1.\<close>

definition unit_rgba :: "rgba \<Rightarrow> bool" where
  "unit_rgba c = (list_all (\<lambda>v. 0 \<le> v \<and> v \<le> 1) [chan_r c, chan_g c, chan_b c, chan_a c])"

definition to_rgba_tuple :: "rgba \<Rightarrow> py_error + rgba" where
  "to_rgba_tuple c = (if unit_rgba c then Inr c else Inl ValueError)"

definition to_rgba_or_raise :: "(string \<Rightarrow> rgba option) \<Rightarrow> json \<Rightarrow> py_error + rgba" where
  "to_rgba_or_raise named c = (case to_rgba named c of None \<Rightarrow> Inl ValueError | Some v \<Rightarrow> Inr v)"

text \<open>One turn of the loop of lines 295-345: the colour appended for an edge.\<close>

definition edge_color ::
  "(string \<Rightarrow> rgba option) \<Rightarrow> pydict \<Rightarrow> graph \<Rightarrow> rat \<Rightarrow> rat \<Rightarrow> rat \<Rightarrow> rat \<Rightarrow> cmap_cache
     \<Rightarrow> nat \<times> nat \<times> pydict \<Rightarrow> (py_error + rgba) \<times> cmap_cache" where
  "edge_color named THEME G minx miny width height CMAP_CACHE e =
     (case e of (u, v, data) \<Rightarrow>
        let highway = edge_highway data;
            key = road_key highway;
            config = dict_get THEME key (JStr ''#3A3A3A'');
            (is_gradient, params) = parse_color_config config
        in if \<not> is_gradient then (to_rgba_or_raise named params, CMAP_CACHE)
           else
             let pd = (case params of JObj d \<Rightarrow> d | _ \<Rightarrow> [])
             in (case sample_gradient named G minx miny width height CMAP_CACHE pd u v of
                   (Inr color, cache') \<Rightarrow> (to_rgba_tuple color, cache')
                 | (Inl exn, cache') \<Rightarrow> (to_rgba_or_raise named (JStr ''#000000''), cache')))"





section \<open>get_cache_key (lines 429-437)\<close>














section \<open>Theme parsing\<close>

text \<open>
  C1 as the code has it: \<open>load_theme\<close> returns the embedded default, which has the four
  required keys, when the file is missing; it fails when the file is not JSON or is JSON but
  not a mapping; and it returns a mapping as read, whatever keys it has.
\<close>

theorem load_theme_cases:
  "(fs (theme_path n) = None \<longrightarrow>
      load_theme fs n = Inr (JObj default_theme) \<and> has_required_keys (JObj default_theme)) \<and>
   (fs (theme_path n) = Some NotJson \<longrightarrow> load_theme fs n = Inl JSONDecodeError) \<and>
   (\<forall>v. fs (theme_path n) = Some (Json v) \<and> \<not> is_dict v \<longrightarrow> load_theme fs n = Inl AttributeError) \<and>
   (\<forall>d. fs (theme_path n) = Some (Json (JObj d)) \<longrightarrow> load_theme fs n = Inr (JObj d))"
proof -
  have req: "has_required_keys (JObj default_theme)"
    by (simp add: default_theme_def required_keys_def dict_has_def)
  have nd: "\<And>v. \<not> is_dict v \<Longrightarrow> (case v of JObj d \<Rightarrow> Inr v | _ \<Rightarrow> Inl AttributeError) = Inl AttributeError"
    by (case_tac v) simp_all
  show ?thesis
    using req nd by (simp add: load_theme_def)
qed

theorem load_theme_cases_witness:
  "load_theme Map.empty ''noir'' = Inr (JObj default_theme) \<and>
   load_theme [theme_path ''noir'' \<mapsto> NotJson] ''noir'' = Inl JSONDecodeError \<and>
   load_theme [theme_path ''noir'' \<mapsto> Json (JList [])] ''noir'' = Inl AttributeError \<and>
   load_theme [theme_path ''noir'' \<mapsto> Json (JObj [])] ''noir'' = Inr (JObj [])"
  using load_theme_cases [of Map.empty "''noir''"]
    load_theme_cases [of "[theme_path ''noir'' \<mapsto> NotJson]" "''noir''"]
    load_theme_cases [of "[theme_path ''noir'' \<mapsto> Json (JList [])]" "''noir''"]
    load_theme_cases [of "[theme_path ''noir'' \<mapsto> Json (JObj [])]" "''noir''"]
  by simp

text \<open>
  C1 as stated fails: a theme file holding a mapping without the required keys is loaded
  without error.
\<close>

theorem load_theme_missing_keys_counterexample:
  "load_theme empty_theme_dir ''bare'' = Inr (JObj [(''name'', JStr ''Bare'')]) \<and>
   \<not> has_required_keys (JObj [(''name'', JStr ''Bare'')])"
  by (simp add: load_theme_def empty_theme_dir_def theme_path_def THEMES_DIR_def
      required_keys_def dict_has_def)

section \<open>Colour configurations\<close>

text \<open>
  C9: every list, of any length, is a vertical gradient over that list; a mapping is a
  gradient exactly when its \<open>type\<close> entry is the string \<open>gradient\<close>, and is returned as it is;
  every other value is returned unchanged as a solid colour.
\<close>

theorem parse_color_config_classifies:
  "(\<forall>v. fst (parse_color_config (JList v)) \<and>
        (\<exists>p. snd (parse_color_config (JList v)) = JObj p \<and>
             map_of p ''type'' = Some (JStr ''gradient'') \<and>
             map_of p ''colors'' = Some (JList v) \<and>
             map_of p ''direction'' = Some (JStr ''vertical'') \<and>
             map fst p = [''type'', ''colors'', ''direction''])) \<and>
   (\<forall>d. fst (parse_color_config (JObj d)) = (map_of d ''type'' = Some (JStr ''gradient'')) \<and>
        snd (parse_color_config (JObj d)) = JObj d) \<and>
   (\<not> is_list c \<and> \<not> is_dict c \<longrightarrow> parse_color_config c = (False, c))"
  by (cases c) simp_all

theorem parse_color_config_classifies_witness:
  "fst (parse_color_config (JList [])) \<and>
   fst (parse_color_config (JList [JStr ''#000000''])) \<and>
   \<not> fst (parse_color_config (JObj [(''type'', JStr ''solid'')])) \<and>
   parse_color_config (JStr ''#3A3A3A'') = (False, JStr ''#3A3A3A'')"
  using parse_color_config_classifies [of "JStr ''#3A3A3A''"]
  by simp

section \<open>Feature detection\<close>

lemma get_enabled_features_names:
  "map fst (get_enabled_features theme) = feature_names"
  by (simp add: get_enabled_features_def feature_keys_def feature_names_def)

lemma get_enabled_features_lookup:
  "f \<in> set feature_names \<Longrightarrow> map_of (get_enabled_features theme) f = Some (dict_has theme f)"
  by (auto simp: get_enabled_features_def feature_keys_def feature_names_def)

lemma get_enabled_features_cong:
  "set (map fst t1) = set (map fst t2) \<Longrightarrow> get_enabled_features t1 = get_enabled_features t2"
  by (simp add: get_enabled_features_def dict_has_def)

text \<open>
  C3: the result has exactly the ten feature names as keys, each mapped to whether that key is
  present in the theme; two themes with the same key set give the same result.
\<close>

theorem get_enabled_features_presence:
  "map fst (get_enabled_features theme) = feature_names \<and>
   distinct feature_names \<and> length feature_names = 10 \<and>
   (\<forall>f \<in> set feature_names.
      map_of (get_enabled_features theme) f = Some (f \<in> set (map fst theme))) \<and>
   (set (map fst theme) = set (map fst theme') \<longrightarrow>
      get_enabled_features theme = get_enabled_features theme')"
proof -
  have "distinct feature_names \<and> length feature_names = 10"
    by (simp add: feature_names_def)
  moreover have "\<forall>f \<in> set feature_names.
      map_of (get_enabled_features theme) f = Some (f \<in> set (map fst theme))"
    using get_enabled_features_lookup [of _ theme] by (simp add: dict_has_def)
  ultimately show ?thesis
    using get_enabled_features_names [of theme] get_enabled_features_cong [of theme theme']
    by blast
qed

theorem get_enabled_features_presence_witness:
  "map_of (get_enabled_features [(''water'', JStr ''#0000FF''), (''bg'', JStr ''#FFFFFF'')])
      ''water'' = Some True \<and>
   map_of (get_enabled_features [(''water'', JStr ''#0000FF''), (''bg'', JStr ''#FFFFFF'')])
      ''parks'' = Some False \<and>
   get_enabled_features [(''water'', JStr ''#0000FF''), (''bg'', JStr ''#FFFFFF'')] =
   get_enabled_features [(''bg'', JList [JStr ''#111111'', JStr ''#222222'']), (''water'', JNull)]"
proof -
  let ?t = "[(''water'', JStr ''#0000FF''), (''bg'', JStr ''#FFFFFF'')]"
  let ?u = "[(''bg'', JList [JStr ''#111111'', JStr ''#222222'']), (''water'', JNull)]"
  note th = get_enabled_features_presence [of ?t ?u]
  have keys: "set (map fst ?t) = set (map fst ?u)"
    by auto
  have w: "''water'' \<in> set feature_names" and p: "''parks'' \<in> set feature_names"
    by (simp_all add: feature_names_def)
  from th w have "map_of (get_enabled_features ?t) ''water'' = Some (''water'' \<in> set (map fst ?t))"
    by blast
  moreover from th p
  have "map_of (get_enabled_features ?t) ''parks'' = Some (''parks'' \<in> set (map fst ?t))"
    by blast
  moreover from th keys have "get_enabled_features ?t = get_enabled_features ?u"
    by blast
  ultimately show ?thesis
    by simp
qed

section \<open>Road classes\<close>

lemma edge_highway_cases:
  "(map_of data ''highway'' = None \<longrightarrow> edge_highway data = JStr ''unclassified'') \<and>
   (map_of data ''highway'' = Some (JList []) \<longrightarrow> edge_highway data = JStr ''unclassified'') \<and>
   (\<forall>h hs. map_of data ''highway'' = Some (JList (h # hs)) \<longrightarrow> edge_highway data = h) \<and>
   (\<forall>v. map_of data ''highway'' = Some v \<and> \<not> is_list v \<longrightarrow> edge_highway data = v)"
proof -
  have "\<And>v. \<not> is_list v \<Longrightarrow> (case v of JList [] \<Rightarrow> JStr ''unclassified'' | JList (h # _) \<Rightarrow> h | _ \<Rightarrow> v) = v"
    by (case_tac v) simp_all
  then show ?thesis
    by (simp add: edge_highway_def dict_get_def)
qed

lemma road_key_table:
  "(road_key t = ''road_motorway'' \<longleftrightarrow> t \<in> {JStr ''motorway'', JStr ''motorway_link''}) \<and>
   (road_key t = ''road_primary'' \<longleftrightarrow>
      t \<in> {JStr ''trunk'', JStr ''trunk_link'', JStr ''primary'', JStr ''primary_link''}) \<and>
   (road_key t = ''road_secondary'' \<longleftrightarrow> t \<in> {JStr ''secondary'', JStr ''secondary_link''}) \<and>
   (road_key t = ''road_tertiary'' \<longleftrightarrow> t \<in> {JStr ''tertiary'', JStr ''tertiary_link''}) \<and>
   (road_key t = ''road_residential'' \<longleftrightarrow>
      t \<in> {JStr ''residential'', JStr ''living_street'', JStr ''unclassified''}) \<and>
   (road_key t = ''road_default'' \<longleftrightarrow>
      t \<notin> {JStr ''motorway'', JStr ''motorway_link'', JStr ''trunk'', JStr ''trunk_link'',
            JStr ''primary'', JStr ''primary_link'', JStr ''secondary'', JStr ''secondary_link'',
            JStr ''tertiary'', JStr ''tertiary_link'', JStr ''residential'',
            JStr ''living_street'', JStr ''unclassified''})"
  by (simp add: road_key_def)

lemma road_width_table:
  "road_width t =
     (if road_key t = ''road_motorway'' then 12 / 10
      else if road_key t = ''road_primary'' then 1
      else if road_key t = ''road_secondary'' then 8 / 10
      else if road_key t = ''road_tertiary'' then 6 / 10
      else 4 / 10)"
  by (simp add: road_key_def road_width_def)

text \<open>
  C4: the tag of an edge is \<open>unclassified\<close> when absent or an empty list, the first element of
  a non-empty list, and the value itself otherwise; every tag gets exactly one of the six road
  keys, by the fixed table, and the stroke width follows the same classes.
\<close>

theorem road_classification_total:
  "(map_of data ''highway'' = None \<longrightarrow> edge_highway data = JStr ''unclassified'') \<and>
   (map_of data ''highway'' = Some (JList []) \<longrightarrow> edge_highway data = JStr ''unclassified'') \<and>
   (\<forall>h hs. map_of data ''highway'' = Some (JList (h # hs)) \<longrightarrow> edge_highway data = h) \<and>
   (\<forall>v. map_of data ''highway'' = Some v \<and> \<not> is_list v \<longrightarrow> edge_highway data = v) \<and>
   (road_key t = ''road_motorway'' \<longleftrightarrow> t \<in> {JStr ''motorway'', JStr ''motorway_link''}) \<and>
   (road_key t = ''road_primary'' \<longleftrightarrow>
      t \<in> {JStr ''trunk'', JStr ''trunk_link'', JStr ''primary'', JStr ''primary_link''}) \<and>
   (road_key t = ''road_secondary'' \<longleftrightarrow> t \<in> {JStr ''secondary'', JStr ''secondary_link''}) \<and>
   (road_key t = ''road_tertiary'' \<longleftrightarrow> t \<in> {JStr ''tertiary'', JStr ''tertiary_link''}) \<and>
   (road_key t = ''road_residential'' \<longleftrightarrow>
      t \<in> {JStr ''residential'', JStr ''living_street'', JStr ''unclassified''}) \<and>
   (road_key t = ''road_default'' \<longleftrightarrow>
      t \<notin> {JStr ''motorway'', JStr ''motorway_link'', JStr ''trunk'', JStr ''trunk_link'',
            JStr ''primary'', JStr ''primary_link'', JStr ''secondary'', JStr ''secondary_link'',
            JStr ''tertiary'', JStr ''tertiary_link'', JStr ''residential'',
            JStr ''living_street'', JStr ''unclassified''}) \<and>
   road_key t \<in> set road_keys \<and> distinct road_keys \<and>
   road_width t =
     (if road_key t = ''road_motorway'' then 12 / 10
      else if road_key t = ''road_primary'' then 1
      else if road_key t = ''road_secondary'' then 8 / 10
      else if road_key t = ''road_tertiary'' then 6 / 10
      else 4 / 10)"
proof -
  have "road_key t \<in> set road_keys"
    by (simp add: road_key_def road_keys_def)
  moreover have "distinct road_keys"
    by (simp add: road_keys_def)
  ultimately show ?thesis
    using edge_highway_cases [of data] road_key_table [of t] road_width_table [of t]
    by (elim conjE) (intro conjI; assumption)
qed

theorem road_classification_total_witness:
  "edge_highway [(''name'', JStr ''A1'')] = JStr ''unclassified'' \<and>
   edge_highway [(''highway'', JList [])] = JStr ''unclassified'' \<and>
   edge_highway [(''highway'', JList [JStr ''trunk'', JStr ''primary''])] = JStr ''trunk'' \<and>
   edge_highway [(''highway'', JStr ''service'')] = JStr ''service'' \<and>
   road_key (JStr ''service'') = ''road_default'' \<and>
   road_width (JStr ''service'') = 4 / 10"
proof -
  note a = road_classification_total [of "[(''name'', JStr ''A1'')]" "JStr ''service''"]
  note b = road_classification_total [of "[(''highway'', JList [])]" "JStr ''service''"]
  note c = road_classification_total
    [of "[(''highway'', JList [JStr ''trunk'', JStr ''primary''])]" "JStr ''service''"]
  note d = road_classification_total [of "[(''highway'', JStr ''service'')]" "JStr ''service''"]
  have 1: "edge_highway [(''name'', JStr ''A1'')] = JStr ''unclassified''"
    using a by simp
  have 2: "edge_highway [(''highway'', JList [])] = JStr ''unclassified''"
    using b by simp
  have 3: "edge_highway [(''highway'', JList [JStr ''trunk'', JStr ''primary''])] = JStr ''trunk''"
    using c by simp
  have 4: "edge_highway [(''highway'', JStr ''service'')] = JStr ''service''"
    using d by simp
  have 5: "road_key (JStr ''service'') = ''road_default''"
    using d by simp
  have 6: "road_width (JStr ''service'') = 4 / 10"
    using d 5 by simp
  show ?thesis
    by (intro conjI) (rule 1 2 3 4 5 6)+
qed

section \<open>Cache reads\<close>

lemma load_from_cache_total: "\<exists>r. load_from_cache cache k = Inr r"
  by (simp add: load_from_cache_def pickle_load_def split: option.splits cache_file.splits)

lemma load_from_cache_hit:
  "load_from_cache cache k = Inr (Some d) \<longleftrightarrow> cache (cache_path k) = Some (Pickled (Some d))"
  by (auto simp: load_from_cache_def pickle_load_def split: option.splits cache_file.splits)

lemma load_from_cache_miss:
  "cache (cache_path k) = None \<or> cache (cache_path k) = Some Unreadable
     \<Longrightarrow> load_from_cache cache k = Inr None"
  by (auto simp: load_from_cache_def pickle_load_def)

lemma acquire_data_miss:
  "cache (cache_path k) = None \<or> cache (cache_path k) = Some Unreadable
     \<Longrightarrow> acquire_data use_cache cache k unpack download = map_sum id Downloaded download"
  by (auto simp: acquire_data_def load_from_cache_miss)

text \<open>
  C6: \<open>load_from_cache\<close> always returns; it returns a dataset exactly when the entry exists
  and unpickles to it, and \<open>None\<close> both when there is no entry and when the entry cannot be
  read; \<open>create_poster\<close> then downloads, the same on a corrupt entry as on a missing one.
\<close>

theorem load_from_cache_corrupt_is_miss:
  "(\<exists>r. load_from_cache cache k = Inr r) \<and>
   (\<forall>d. load_from_cache cache k = Inr (Some d) \<longleftrightarrow>
        cache (cache_path k) = Some (Pickled (Some d))) \<and>
   (cache (cache_path k) = None \<longrightarrow> load_from_cache cache k = Inr None) \<and>
   (cache (cache_path k) = Some Unreadable \<longrightarrow> load_from_cache cache k = Inr None) \<and>
   (cache (cache_path k) = Some Unreadable \<and> cache' (cache_path k) = None \<longrightarrow>
      acquire_data use_cache cache k unpack download = map_sum id Downloaded download \<and>
      acquire_data use_cache cache k unpack download =
      acquire_data use_cache cache' k unpack download)"
  using load_from_cache_total [of cache k] load_from_cache_hit [of cache k]
    load_from_cache_miss [of cache k] acquire_data_miss [of cache k use_cache unpack download]
    acquire_data_miss [of cache' k use_cache unpack download]
  by simp

theorem load_from_cache_corrupt_is_miss_witness:
  "load_from_cache [cache_path ''k'' \<mapsto> (Unreadable :: nat cache_file)] ''k'' = Inr None \<and>
   load_from_cache (Map.empty :: string \<rightharpoonup> nat cache_file) ''k'' = Inr None \<and>
   load_from_cache [cache_path ''k'' \<mapsto> Pickled (Some (7::nat))] ''k'' = Inr (Some 7) \<and>
   acquire_data True [cache_path ''k'' \<mapsto> (Unreadable :: nat cache_file)] ''k'' Inr (Inr (3::nat)) =
     Inr (Downloaded 3) \<and>
   acquire_data True [cache_path ''k'' \<mapsto> (Unreadable :: nat cache_file)] ''k'' Inr (Inr (3::nat)) =
   acquire_data True Map.empty ''k'' Inr (Inr 3)"
proof -
  let ?c = "[cache_path ''k'' \<mapsto> (Unreadable :: nat cache_file)]"
  let ?e = "Map.empty :: string \<rightharpoonup> nat cache_file"
  let ?g = "[cache_path ''k'' \<mapsto> Pickled (Some (7::nat))]"
  note a = load_from_cache_corrupt_is_miss [of ?c "''k''" ?e True Inr "Inr (3::nat)"]
  note b = load_from_cache_corrupt_is_miss [of ?e "''k''" ?e True Inr "Inr (3::nat)"]
  note c = load_from_cache_corrupt_is_miss [of ?g "''k''" ?e True Inr "Inr (3::nat)"]
  have 1: "load_from_cache ?c ''k'' = Inr None" using a by simp
  have 2: "load_from_cache ?e ''k'' = Inr None" using b by simp
  have 3: "load_from_cache ?g ''k'' = Inr (Some 7)" using c by simp
  have 4: "acquire_data True ?c ''k'' Inr (Inr (3::nat)) = Inr (Downloaded 3)" using a by simp
  have 5: "acquire_data True ?c ''k'' Inr (Inr (3::nat)) = acquire_data True ?e ''k'' Inr (Inr 3)"
    using a by fastforce
  show ?thesis
    by (intro conjI) (rule 1 2 3 4 5)+
qed

section \<open>Area layers\<close>









section \<open>Vignette fades\<close>

lemma linspace_nth: "i < n \<Longrightarrow> linspace a b n ! i = a + of_nat i * ((b - a) / of_nat (n - 1))"
  by (simp add: linspace_def)

lemma length_linspace: "length (linspace a b n) = n"
  by (simp add: linspace_def)

lemma cmap_index_256: 
  assumes "i < 256"
  shows "cmap_index 256 (of_nat i / 255) = i"
proof (cases "i = 255")
  case True
  then show ?thesis by (simp add: cmap_index_def)
next
  case False
  with assms have lt: "(of_nat i :: rat) < 255" by simp
  let ?x = "(of_nat i / 255 :: rat) * of_nat (256::nat)"
  have ge: "of_int (int i) \<le> ?x"
    by (simp add: field_simps)
  have le: "?x < of_int (int i) + 1"
    using lt by (simp add: field_simps)
  have fl: "\<lfloor>?x\<rfloor> = int i"
    using ge le by (rule floor_unique)
  have b1: "\<not> ?x < 0"
    by (simp add: not_less)
  have b2: "\<not> ?x \<ge> of_nat (256::nat)"
    using lt by (simp add: field_simps)
  show ?thesis
    unfolding cmap_index_def using b1 b2 fl by (simp only: if_False nat_int)
qed

lemma fade_vals_nth: "i < 256 \<Longrightarrow> linspace 0 1 256 ! i = of_nat i / 255"
  by (simp add: linspace_nth)

lemma fade_pixels_nth:
  assumes "i < 256" and "length alphas = 256"
  shows "map (map (\<lambda>v. map (\<lambda>a. (r, g, b, a)) alphas ! cmap_index 256 v))
           (map (\<lambda>v. [v, v]) (linspace 0 1 256)) ! i =
         [(r, g, b, alphas ! i), (r, g, b, alphas ! i)]"
  using assms by (simp add: length_linspace fade_vals_nth cmap_index_256)

lemma create_gradient_fade_bottom:
  assumes "to_rgb named color = Some (r, g, b)"
  shows "\<exists>img. create_gradient_fade named (x0, x1) (y0, y1) color ''bottom'' z = Inr img \<and>
           img_extent img = (x0, x1, y0, y0 + (y1 - y0) * (25 / 100)) \<and>
           length (img_pixels img) = 256 \<and>
           (\<forall>i < 256. img_pixels img ! i =
               [(r, g, b, 1 - of_nat i / 255), (r, g, b, 1 - of_nat i / 255)])"
proof -
  have a: "\<And>i. i < 256 \<Longrightarrow> linspace 1 0 256 ! i = 1 - of_nat i / 255"
    by (simp add: linspace_nth)
  show ?thesis
    using assms a fade_pixels_nth [OF _ length_linspace [of 1 0 256], of _ r g b]
    by (simp add: create_gradient_fade_def Let_def length_linspace)
qed

lemma create_gradient_fade_top:
  assumes "to_rgb named color = Some (r, g, b)" and "location \<noteq> ''bottom''"
  shows "\<exists>img. create_gradient_fade named (x0, x1) (y0, y1) color location z = Inr img \<and>
           img_extent img = (x0, x1, y0 + (y1 - y0) * (75 / 100), y0 + (y1 - y0) * 1) \<and>
           length (img_pixels img) = 256 \<and>
           (\<forall>i < 256. img_pixels img ! i =
               [(r, g, b, of_nat i / 255), (r, g, b, of_nat i / 255)])"
proof -
  show ?thesis
    using assms fade_vals_nth fade_pixels_nth [OF _ length_linspace [of 0 1 256], of _ r g b]
    by (simp add: create_gradient_fade_def Let_def length_linspace)
qed


text \<open>
  C8: with a valid fade colour, the two fades are bands of a quarter of the vertical extent,
  from 0 to 0.25 at the bottom and from 0.75 to 1 at the top; each has 256 rows of the fade
  colour whose opacity runs from 1 on the row at the canvas edge to 0 on the row toward the
  centre; and the top band is the bottom band with its rows reversed.
\<close>

theorem vignette_bands:
  assumes "map_of THEME ''gradient_color'' = Some color"
    and "to_rgb named color = Some (r, g, b)"
  shows "\<exists>lower upper.
           poster_fades named THEME (x0, x1) (y0, y1) = Inr [lower, upper] \<and>
           img_extent lower = (x0, x1, y0, y0 + (y1 - y0) * (25 / 100)) \<and>
           img_extent upper = (x0, x1, y0 + (y1 - y0) * (75 / 100), y1) \<and>
           length (img_pixels lower) = 256 \<and> length (img_pixels upper) = 256 \<and>
           (\<forall>i < 256. img_pixels lower ! i =
               [(r, g, b, 1 - of_nat i / 255), (r, g, b, 1 - of_nat i / 255)]) \<and>
           (\<forall>i < 256. img_pixels upper ! i =
               [(r, g, b, of_nat i / 255), (r, g, b, of_nat i / 255)]) \<and>
           img_pixels lower ! 0 = [(r, g, b, 1), (r, g, b, 1)] \<and>
           img_pixels lower ! 255 = [(r, g, b, 0), (r, g, b, 0)] \<and>
           img_pixels upper ! 255 = [(r, g, b, 1), (r, g, b, 1)] \<and>
           img_pixels upper ! 0 = [(r, g, b, 0), (r, g, b, 0)] \<and>
           img_pixels upper = rev (img_pixels lower)"
proof -
  from create_gradient_fade_bottom [OF assms(2), of x0 x1 y0 y1 10] obtain lower where
    lo: "create_gradient_fade named (x0, x1) (y0, y1) color ''bottom'' 10 = Inr lower"
    and lo_ext: "img_extent lower = (x0, x1, y0, y0 + (y1 - y0) * (25 / 100))"
    and lo_len: "length (img_pixels lower) = 256"
    and lo_px: "\<forall>i < 256. img_pixels lower ! i =
               [(r, g, b, 1 - of_nat i / 255), (r, g, b, 1 - of_nat i / 255)]"
    by blast
  have ne: "''top'' \<noteq> ''bottom''" by simp
  from create_gradient_fade_top [OF assms(2) ne, of x0 x1 y0 y1 10] obtain upper where
    up: "create_gradient_fade named (x0, x1) (y0, y1) color ''top'' 10 = Inr upper"
    and up_ext: "img_extent upper = (x0, x1, y0 + (y1 - y0) * (75 / 100), y1)"
    and up_len: "length (img_pixels upper) = 256"
    and up_px: "\<forall>i < 256. img_pixels upper ! i =
               [(r, g, b, of_nat i / 255), (r, g, b, of_nat i / 255)]"
    by auto
  have res: "poster_fades named THEME (x0, x1) (y0, y1) = Inr [lower, upper]"
    using assms(1) lo up by (simp add: poster_fades_def)
  have l0: "img_pixels lower ! 0 = [(r, g, b, 1), (r, g, b, 1)]"
    using lo_px by simp
  have l255: "img_pixels lower ! 255 = [(r, g, b, 0), (r, g, b, 0)]"
    using lo_px by simp
  have u255: "img_pixels upper ! 255 = [(r, g, b, 1), (r, g, b, 1)]"
    using up_px by simp
  have u0: "img_pixels upper ! 0 = [(r, g, b, 0), (r, g, b, 0)]"
    using up_px by simp
  have mirror: "img_pixels upper = rev (img_pixels lower)"
  proof (rule nth_equalityI)
    show "length (img_pixels upper) = length (rev (img_pixels lower))"
      using lo_len up_len by simp
  next
    fix i assume "i < length (img_pixels upper)"
    then have i: "i < 256" using up_len by simp
    then have j: "255 - i < 256" by simp
    have "rev (img_pixels lower) ! i = img_pixels lower ! (255 - i)"
      using i lo_len by (simp add: rev_nth)
    also have "\<dots> = [(r, g, b, 1 - of_nat (255 - i) / 255), (r, g, b, 1 - of_nat (255 - i) / 255)]"
      using lo_px j by blast
    also have "(1 :: rat) - of_nat (255 - i) / 255 = of_nat i / 255"
      using i by (simp add: of_nat_diff field_simps)
    finally show "img_pixels upper ! i = rev (img_pixels lower) ! i"
      using up_px i by simp
  qed
  show ?thesis
    using res lo_ext up_ext lo_len up_len lo_px up_px l0 l255 u255 u0 mirror by blast
qed

theorem vignette_bands_witness:
  "\<exists>lower upper.
     poster_fades Map.empty [(''gradient_color'', JStr ''#FFFFFF'')] (0, 12) (0, 16) =
       Inr [lower, upper] \<and>
     img_extent lower = (0, 12, 0, 4) \<and> img_extent upper = (0, 12, 12, 16) \<and>
     img_pixels lower ! 0 = [(1, 1, 1, 1), (1, 1, 1, 1)] \<and>
     img_pixels upper ! 255 = [(1, 1, 1, 1), (1, 1, 1, 1)] \<and>
     img_pixels upper = rev (img_pixels lower)"
proof -
  have k: "map_of [(''gradient_color'', JStr ''#FFFFFF'')] ''gradient_color'' = Some (JStr ''#FFFFFF'')"
    by simp
  have c: "to_rgb Map.empty (JStr ''#FFFFFF'') = Some (1, 1, 1)"
    by (simp add: to_rgb_def to_rgba_def hex_byte_def hex_digit_def)
  from vignette_bands [OF k c, of 0 12 0 16] show ?thesis
    by auto
qed

section \<open>Edge colours\<close>


lemma or_else_degenerate: "or_else (hi - lo) 1 = (if hi = lo then 1 else hi - lo)"
  by (simp add: or_else_def)









lemma black_is_colour: "to_rgba_or_raise named (JStr ''#000000'') = Inr (0, 0, 0, 1)"
  by (simp add: to_rgba_or_raise_def to_rgba_def hex_byte_def hex_digit_def)









section \<open>Gradient sampling\<close>





































text \<open>
  Stops that cannot be hashed (lists or dicts as stop values) fail at the lookup of line 265,
  and every failure of the sampling gives the edge the fallback colour black.
\<close>

lemma get_cached_cmap_unhashable:
  "\<not> list_all hashable cs \<Longrightarrow> get_cached_cmap named cache (JList cs) = (Inl TypeError, cache)"
  by (simp add: get_cached_cmap_def)

lemma edge_color_fallback:
  assumes "parse_color_config (dict_get THEME (road_key (edge_highway data)) (JStr ''#3A3A3A'')) =
           (True, JObj pd)"
    and "sample_gradient named G minx miny width height cache pd u v = (Inl exn, cache')"
  shows "edge_color named THEME G minx miny width height cache (u, v, data) =
         (Inr (0, 0, 0, 1), cache')"
  using assms by (simp add: edge_color_def Let_def black_is_colour)

section \<open>Cache keys\<close>








































end
